theory Spec2Isabelle
  imports Main "HOL-Library.Multiset"
begin

section \<open>Python text operations used by the dashboards\<close>

text \<open>
  Text is a list of characters; a character stands for a code point below 256.  On that
  range Python's \<^verbatim>\<open>str.isspace\<close> holds for the code points 9-13, 28-32, 133 and 160, and
  \<^verbatim>\<open>str.strip()\<close> removes exactly such characters from both ends.
\<close>

definition isspace :: "char \<Rightarrow> bool" where
  "isspace c =
     (let n = (of_char c :: nat)
      in (9 \<le> n \<and> n \<le> 13) \<or> (28 \<le> n \<and> n \<le> 32) \<or> n = 133 \<or> n = 160)"

definition str_strip :: "string \<Rightarrow> string" where
  "str_strip s = rev (dropWhile isspace (rev (dropWhile isspace s)))"

definition startswith :: "string \<Rightarrow> string \<Rightarrow> bool" where
  "startswith s p = (take (length p) s = p)"

text \<open>Exceptions of the Python run time, and the failure of the model call with its message.\<close>

datatype error =
    ModelError string
  | JSONDecodeError
  | AttributeError
  | IndexError
  | ValueError
  | FileNotFoundError

text \<open>
  \<^verbatim>\<open>s.split(sep)\<close>: the pieces between the non-overlapping occurrences of \<open>sep\<close>, found from
  the left; an empty separator raises.  \<open>cur\<close> holds the current piece, reversed.
\<close>

function split_from :: "string \<Rightarrow> string \<Rightarrow> string \<Rightarrow> string list" where
  "split_from sep cur [] = [rev cur]"
| "split_from sep cur (c # cs) =
     (if sep \<noteq> [] \<and> startswith (c # cs) sep
      then rev cur # split_from sep [] (drop (length sep) (c # cs))
      else split_from sep (c # cur) cs)"
  by pat_completeness auto
termination
  by (relation "measure (\<lambda>(sep, cur, s). length s)") auto

definition str_split :: "string \<Rightarrow> string \<Rightarrow> error + string list" where
  "str_split s sep = (if sep = [] then Inl ValueError else Inr (split_from sep [] s))"

definition index :: "'a list \<Rightarrow> nat \<Rightarrow> error + 'a" where
  "index xs i = (if i < length xs then Inr (xs ! i) else Inl IndexError)"

text \<open>\<^verbatim>\<open>str(n)\<close> of an integer, as the f-string of the fallback summary formats the rating.\<close>

fun digits :: "nat \<Rightarrow> string" where
  "digits n =
     (if n < 10 then [char_of (48 + n)]
      else digits (n div 10) @ [char_of (48 + n mod 10)])"

declare digits.simps [simp del]

definition str_int :: "int \<Rightarrow> string" where
  "str_int i = (if i < 0 then CHR ''-'' # digits (nat (- i)) else digits (nat i))"

section \<open>Decoded JSON values\<close>

text \<open>
  What \<^verbatim>\<open>json.loads\<close> returns: \<^verbatim>\<open>None\<close>, a bool, an int, a float (kept as its literal), a
  string, a list or a dict.  A dict is an association list; \<^verbatim>\<open>data.get(key, default)\<close> is
  an attribute of dicts only, so on any other value it raises \<^verbatim>\<open>AttributeError\<close>.
\<close>

datatype json =
    JNull
  | JBool bool
  | JInt int
  | JFloat string
  | JStr string
  | JList "json list"
  | JDict "(string \<times> json) list"

fun dict_get :: "json \<Rightarrow> string \<Rightarrow> json \<Rightarrow> error + json" where
  "dict_get (JDict kvs) key dflt = Inr (case map_of kvs key of None \<Rightarrow> dflt | Some v \<Rightarrow> v)"
| "dict_get _ key dflt = Inl AttributeError"

fun is_dict :: "json \<Rightarrow> bool" where
  "is_dict (JDict kvs) = True"
| "is_dict _ = False"

section \<open>The analyzer (pages/1_User_Dashboard.py)\<close>

text \<open>
  \<^verbatim>\<open>chain.invoke\<close> and \<^verbatim>\<open>json.loads\<close> are library calls: the model takes them as
  parameters.  \<open>invoke\<close> is given the prompt template, the rating and the review and
  returns the \<^verbatim>\<open>content\<close> of the response, or the exception the call raised.
\<close>

datatype template = ResponsePrompt | AnalysisPrompt

type_synonym chain = "template \<Rightarrow> int \<Rightarrow> string \<Rightarrow> error + string"
type_synonym decoder = "string \<Rightarrow> error + json"

definition generate_ai_response :: "chain \<Rightarrow> int \<Rightarrow> string \<Rightarrow> error + string" where
  "generate_ai_response invoke r t =
     (case invoke ResponsePrompt r t of
        Inl e \<Rightarrow> Inl e
      | Inr content \<Rightarrow> Inr (str_strip content))"

text \<open>Lines 103-106: the text between the opening code fence and the next fence.\<close>

definition between :: "string \<Rightarrow> string \<Rightarrow> string \<Rightarrow> error + string" where
  "between content opening closing =
     (case str_split content opening of
        Inl e \<Rightarrow> Inl e
      | Inr parts \<Rightarrow>
          (case index parts 1 of
             Inl e \<Rightarrow> Inl e
           | Inr inner \<Rightarrow>
               (case str_split inner closing of
                  Inl e \<Rightarrow> Inl e
                | Inr pieces \<Rightarrow> index pieces 0)))"

definition remove_code_block :: "string \<Rightarrow> error + string" where
  "remove_code_block content =
     (if startswith content ''```json'' then between content ''```json'' ''```''
      else if startswith content ''```'' then between content ''```'' ''```''
      else Inr content)"

text \<open>The body of the \<^verbatim>\<open>try\<close> block, lines 100-109.\<close>

definition parse_analysis :: "decoder \<Rightarrow> string \<Rightarrow> error + json \<times> json" where
  "parse_analysis json_loads raw =
     (case remove_code_block (str_strip raw) of
        Inl e \<Rightarrow> Inl e
      | Inr content \<Rightarrow>
          (case json_loads (str_strip content) of
             Inl e \<Rightarrow> Inl e
           | Inr data \<Rightarrow>
               (case dict_get data ''summary'' (JStr ''Summary not available'') of
                  Inl e \<Rightarrow> Inl e
                | Inr summary \<Rightarrow>
                    (case dict_get data ''recommended_actions'' (JStr ''Actions not available'') of
                       Inl e \<Rightarrow> Inl e
                     | Inr actions \<Rightarrow> Inr (summary, actions)))))"

definition fallback :: "int \<Rightarrow> json \<times> json" where
  "fallback r =
     (JStr (str_int r @ ''-star review requiring attention''),
      JStr ''Review manually and respond appropriately'')"

text \<open>
  The model call stands before the \<^verbatim>\<open>try\<close>; the bare \<^verbatim>\<open>except\<close> turns every exception
  of the block into the fallback pair.
\<close>

definition generate_summary_and_actions ::
  "chain \<Rightarrow> decoder \<Rightarrow> int \<Rightarrow> string \<Rightarrow> error + json \<times> json" where
  "generate_summary_and_actions invoke json_loads r t =
     (case invoke AnalysisPrompt r t of
        Inl e \<Rightarrow> Inl e
      | Inr raw \<Rightarrow>
          (case parse_analysis json_loads raw of
             Inl e \<Rightarrow> Inr (fallback r)
           | Inr result \<Rightarrow> Inr result))"

section \<open>The shared store (data/reviews.csv)\<close>

text \<open>
  One row per submission, with the six columns of the file.  An instant is a number of
  microseconds of the local clock; \<^verbatim>\<open>strftime("%Y-%m-%d %H:%M:%S")\<close> keeps it to the
  second, and the text it writes is identified with the instant it denotes (which is what
  \<^verbatim>\<open>pd.to_datetime\<close> in \<^verbatim>\<open>load_data\<close> reads back).  The summary and the actions are
  whatever the decoded object held under their keys.  The file is modelled by the data frame
  it holds: \<^verbatim>\<open>to_csv\<close> followed by \<^verbatim>\<open>read_csv\<close> is taken to return the frame written.
\<close>

record review_row =
  timestamp :: int
  rating :: int
  review :: string
  ai_response :: string
  ai_summary :: json
  recommended_actions :: json

type_synonym frame = "review_row list"

text \<open>
  The state both pages share: the file (\<open>None\<close> when it does not exist) and the entry of
  \<^verbatim>\<open>st.cache_data\<close> for \<^verbatim>\<open>load_data\<close>, with the time at which it was stored.
\<close>

record server =
  data_file :: "frame option"
  load_cache :: "(int \<times> frame) option"

definition second :: int where
  "second = 1000000"

definition strftime :: "int \<Rightarrow> int" where
  "strftime now = now - now mod second"

definition read_csv :: "server \<Rightarrow> error + frame" where
  "read_csv s = (case data_file s of None \<Rightarrow> Inl FileNotFoundError | Some df \<Rightarrow> Inr df)"

definition to_csv :: "frame \<Rightarrow> server \<Rightarrow> server" where
  "to_csv df s = s\<lparr>data_file := Some df\<rparr>"

text \<open>Both pages create the file with its header when it does not exist.\<close>

definition init_data_file :: "server \<Rightarrow> server" where
  "init_data_file s = (case data_file s of None \<Rightarrow> to_csv [] s | Some df \<Rightarrow> s)"

definition save_review ::
  "int \<Rightarrow> int \<Rightarrow> string \<Rightarrow> string \<Rightarrow> json \<Rightarrow> json \<Rightarrow> server \<Rightarrow> error + server" where
  "save_review now r t response summary actions s =
     (let new_row = \<lparr>timestamp = strftime now, rating = r, review = t,
                      ai_response = response, ai_summary = summary,
                      recommended_actions = actions\<rparr>
      in case read_csv s of
           Inl e \<Rightarrow> Inl e
         | Inr df \<Rightarrow> Inr (to_csv (df @ [new_row]) s))"

section \<open>The submission form (pages/1_User_Dashboard.py, lines 176-205)\<close>

datatype outcome =
    NotSubmitted
  | ValidationError
  | Reply string
  | Failed error

definition handle_form_submission ::
  "chain \<Rightarrow> decoder \<Rightarrow> int \<Rightarrow> bool \<Rightarrow> int \<Rightarrow> string \<Rightarrow> server \<Rightarrow> outcome \<times> server" where
  "handle_form_submission invoke json_loads now submitted r review_text s =
     (if \<not> submitted then (NotSubmitted, s)
      else if str_strip review_text = [] then (ValidationError, s)
      else
        (case generate_ai_response invoke r review_text of
           Inl e \<Rightarrow> (Failed e, s)
         | Inr response \<Rightarrow>
             (case generate_summary_and_actions invoke json_loads r review_text of
                Inl e \<Rightarrow> (Failed e, s)
              | Inr (summary, actions) \<Rightarrow>
                  (case save_review now r review_text response summary actions s of
                     Inl e \<Rightarrow> (Failed e, s)
                   | Inr s' \<Rightarrow> (Reply response, s')))))"

definition user_dashboard ::
  "chain \<Rightarrow> decoder \<Rightarrow> int \<Rightarrow> bool \<Rightarrow> int \<Rightarrow> string \<Rightarrow> server \<Rightarrow> outcome \<times> server" where
  "user_dashboard invoke json_loads now submitted r review_text s =
     handle_form_submission invoke json_loads now submitted r review_text (init_data_file s)"

section \<open>The admin page (pages/2_Admin_Dashboard.py)\<close>

text \<open>
  \<^verbatim>\<open>@st.cache_data(ttl=30)\<close>: within 30 seconds of the call that computed it, \<^verbatim>\<open>load_data\<close>
  returns the stored frame without reading the file.
\<close>

definition ttl :: int where
  "ttl = 30 * second"

definition read_data :: "server \<Rightarrow> frame" where
  "read_data s = (case data_file s of Some df \<Rightarrow> df | None \<Rightarrow> [])"

definition load_data :: "int \<Rightarrow> server \<Rightarrow> frame \<times> server" where
  "load_data now s =
     (case load_cache s of
        Some (stored, df) \<Rightarrow>
          if now < stored + ttl then (df, s)
          else (read_data s, s\<lparr>load_cache := Some (now, read_data s)\<rparr>)
      | None \<Rightarrow> (read_data s, s\<lparr>load_cache := Some (now, read_data s)\<rparr>))"

definition cache_data_clear :: "server \<Rightarrow> server" where
  "cache_data_clear s = s\<lparr>load_cache := None\<rparr>"

datatype date_choice = AllTime | Today | Last7Days | Last30Days

datatype sort_choice = NewestFirst | OldestFirst | HighestRating | LowestRating

record controls =
  rating_filter :: "int list"
  date_filter :: date_choice
  sort_order :: sort_choice

definition days :: "int \<Rightarrow> int" where
  "days n = n * 86400 * second"

definition date :: "int \<Rightarrow> int" where
  "date t = t div days 1"

fun in_date_range :: "int \<Rightarrow> date_choice \<Rightarrow> review_row \<Rightarrow> bool" where
  "in_date_range now AllTime row = True"
| "in_date_range now Today row = (date (timestamp row) = date now)"
| "in_date_range now Last7Days row = (timestamp row > now - days 7)"
| "in_date_range now Last30Days row = (timestamp row > now - days 30)"

text \<open>
  \<^verbatim>\<open>sort_values\<close> orders the rows by one column; the order it leaves between rows with equal
  keys is not fixed by pandas, and here it is the order of a stable sort.
\<close>

fun sort_values :: "sort_choice \<Rightarrow> frame \<Rightarrow> frame" where
  "sort_values NewestFirst df = rev (sort_key timestamp df)"
| "sort_values OldestFirst df = sort_key timestamp df"
| "sort_values HighestRating df = rev (sort_key rating df)"
| "sort_values LowestRating df = sort_key rating df"

definition filtered_df :: "int \<Rightarrow> controls \<Rightarrow> frame \<Rightarrow> frame" where
  "filtered_df now c df =
     sort_values (sort_order c)
       (filter (in_date_range now (date_filter c))
          (filter (\<lambda>row. rating row \<in> set (rating_filter c)) df))"

definition critical_csv :: "int \<Rightarrow> controls \<Rightarrow> frame \<Rightarrow> frame" where
  "critical_csv now c df = filter (\<lambda>row. rating row \<le> 2) (filtered_df now c df)"

text \<open>
  A script run is started by at most one widget: \<^verbatim>\<open>st.button\<close> returns \<^verbatim>\<open>True\<close> only in the
  run that the click on that very button started.
\<close>

datatype widget = Refresh | ClearAllData | ConfirmDelete

definition button :: "widget option \<Rightarrow> widget \<Rightarrow> bool" where
  "button clicked w = (clicked = Some w)"

text \<open>Lines 349-351, before the rerun.\<close>

definition clear_all_data :: "server \<Rightarrow> server" where
  "clear_all_data s = cache_data_clear (to_csv [] s)"

record exports =
  csv :: frame
  critical :: frame

datatype page = Rerun | NoReviews | Rendered frame exports

definition admin_script :: "widget option \<Rightarrow> controls \<Rightarrow> int \<Rightarrow> server \<Rightarrow> page \<times> server" where
  "admin_script clicked c now s0 =
     (let s = init_data_file s0 in
      if button clicked Refresh then (Rerun, cache_data_clear s)
      else
        (case load_data now s of
           (df, s1) \<Rightarrow>
             if df = [] then (NoReviews, s1)
             else
               (let shown = filtered_df now c df;
                    files = \<lparr>csv = shown, critical = critical_csv now c df\<rparr>
                in if button clicked ClearAllData
                   then if button clicked ConfirmDelete
                        then (Rerun, clear_all_data s1)
                        else (Rendered shown files, s1)
                   else (Rendered shown files, s1))))"

text \<open>\<^verbatim>\<open>st.rerun()\<close> starts the script again, with no widget clicked.\<close>

definition admin_dashboard :: "widget option \<Rightarrow> controls \<Rightarrow> int \<Rightarrow> server \<Rightarrow> page \<times> server" where
  "admin_dashboard clicked c now s =
     (case admin_script clicked c now s of
        (Rerun, s') \<Rightarrow> admin_script None c now s'
      | (p, s') \<Rightarrow> (p, s'))"

text \<open>A visit of the admin: one script run per action, each with the controls as they stand.\<close>

fun admin_session :: "(widget option \<times> controls \<times> int) list \<Rightarrow> server \<Rightarrow> server" where
  "admin_session [] s = s"
| "admin_session ((clicked, c, now) # actions) s =
     admin_session actions (snd (admin_dashboard clicked c now s))"

section \<open>Concrete inputs\<close>

text \<open>
  Model calls, decoders, stores and controls at which the theorems below are evaluated: a
  model that answers the analysis prompt with an empty object inside a code fence, one that
  answers with prose, one that answers with an empty list, one that answers with blank
  text and one whose call raises; and a decoder that knows the empty object and the empty
  list and rejects every other text.
\<close>

definition fenced_object :: string where
  "fenced_object = ''```json'' @ [CHR 0x0A] @ ''{}'' @ [CHR 0x0A] @ ''```''"

definition polite_chain :: chain where
  "polite_chain k r t =
     (case k of ResponsePrompt \<Rightarrow> Inr '' Thank you! '' | AnalysisPrompt \<Rightarrow> Inr fenced_object)"

definition prose_chain :: chain where
  "prose_chain k r t = Inr '' Thank you! ''"

definition list_chain :: chain where
  "list_chain k r t = Inr ''[]''"

definition blank_chain :: chain where
  "blank_chain k r t = Inr ''  ''"

definition broken_chain :: chain where
  "broken_chain k r t = Inl (ModelError ''timeout'')"

definition small_decoder :: decoder where
  "small_decoder x =
     (if x = ''{}'' then Inr (JDict [])
      else if x = ''[]'' then Inr (JList [])
      else Inl JSONDecodeError)"

definition empty_store :: server where
  "empty_store = \<lparr>data_file = Some [], load_cache = None\<rparr>"

definition terrible :: review_row where
  "terrible = \<lparr>timestamp = 0, rating = 1, review = ''Terrible'',
                ai_response = ''We are sorry.'', ai_summary = JStr ''Unhappy customer'',
                recommended_actions = JStr ''Call the customer''\<rparr>"

definition one_review :: server where
  "one_review = \<lparr>data_file = Some [terrible], load_cache = None\<rparr>"

definition all_reviews :: controls where
  "all_reviews = \<lparr>rating_filter = [1, 2, 3, 4, 5], date_filter = AllTime,
                   sort_order = NewestFirst\<rparr>"

definition good_reviews :: controls where
  "good_reviews = \<lparr>rating_filter = [3, 4, 5], date_filter = AllTime,
                    sort_order = NewestFirst\<rparr>"

definition loved :: review_row where
  "loved = \<lparr>timestamp = 5000000, rating = 5, review = ''Loved it'',
             ai_response = ''Thanks'', ai_summary = JStr ''Happy'',
             recommended_actions = JStr ''None''\<rparr>"

section \<open>Properties of the analyzer\<close>

lemma split_from_not_Nil: "split_from sep cur s \<noteq> []"
  by (induction sep cur s rule: split_from.induct) auto

lemma startswith_split_from:
  assumes "sep \<noteq> []" and "startswith s sep"
  shows "1 < length (split_from sep [] s)"
proof (cases s)
  case Nil
  with assms show ?thesis by (simp add: startswith_def)
next
  case (Cons c cs)
  have "0 < length (split_from sep [] (drop (length sep) (c # cs)))"
    using split_from_not_Nil by blast
  with assms Cons show ?thesis by simp
qed

lemma between_total:
  assumes "opening \<noteq> []" and "closing \<noteq> []" and "startswith content opening"
  shows "\<exists>inner. between content opening closing = Inr inner"
proof -
  have 1: "1 < length (split_from opening [] content)"
    using assms(1,3) by (rule startswith_split_from)
  have 2: "0 < length (split_from closing [] (split_from opening [] content ! 1))"
    using split_from_not_Nil by blast
  show ?thesis
    using assms 1 2 by (simp add: between_def str_split_def index_def)
qed

lemma remove_code_block_total: "\<exists>inner. remove_code_block content = Inr inner"
  by (simp add: remove_code_block_def between_total)

lemma fallback_text:
  "fallback r = (JStr (str_int r @ ''-star review requiring attention''),
                 JStr ''Review manually and respond appropriately'')"
  by (simp add: fallback_def)

lemma dict_get_not_dict: "\<not> is_dict v \<Longrightarrow> dict_get v key dflt = Inl AttributeError"
  by (cases v) simp_all

lemma str_int_2: "str_int 2 = ''2''"
  by code_simp

lemma str_int_5: "str_int 5 = ''5''"
  by code_simp

lemma prose_inner: "remove_code_block (str_strip '' Thank you! '') = Inr ''Thank you!''"
  by code_simp

lemma list_inner: "remove_code_block (str_strip ''[]'') = Inr ''[]''"
  by code_simp

lemma blank_inner: "remove_code_block (str_strip ''  '') = Inr []"
  by code_simp

lemma fenced_inner:
  "remove_code_block (str_strip fenced_object) = Inr [CHR 0x0A, CHR ''{'', CHR ''}'', CHR 0x0A]"
  unfolding fenced_object_def by code_simp

lemma fenced_inner_strip: "str_strip [CHR 0x0A, CHR ''{'', CHR ''}'', CHR 0x0A] = ''{}''"
  by code_simp

lemma prose_strip: "str_strip ''Thank you!'' = ''Thank you!''"
  by code_simp

lemma prose_reply: "str_strip '' Thank you! '' = ''Thank you!''"
  by code_simp

lemma list_strip: "str_strip ''[]'' = ''[]''"
  by code_simp

lemma blank_strip: "str_strip ''  '' = []"
  by code_simp

lemma empty_strip: "str_strip [] = []"
  by (simp add: str_strip_def)

lemma parse_fenced_object:
  "parse_analysis small_decoder fenced_object =
     Inr (JStr ''Summary not available'', JStr ''Actions not available'')"
  by (simp add: parse_analysis_def fenced_inner fenced_inner_strip small_decoder_def)

lemma parse_prose: "parse_analysis small_decoder '' Thank you! '' = Inl JSONDecodeError"
  by (simp add: parse_analysis_def prose_inner prose_strip small_decoder_def)

lemma parse_blank: "parse_analysis small_decoder ''  '' = Inl JSONDecodeError"
  by (simp add: parse_analysis_def blank_inner empty_strip small_decoder_def)

text \<open>
  C3. For every rating, when the model has answered the analysis prompt and the answer is
  malformed, that is, the decoder raises on the text left after the code fence is removed,
  or decodes it to a value that is not an object, the analysis returns exactly the pair
  of the rating followed by \<^verbatim>\<open>-star review requiring attention\<close> and
  \<^verbatim>\<open>Review manually and respond appropriately\<close>, and does not raise.
\<close>
theorem analysis_fallback_on_malformed:
  assumes "invoke AnalysisPrompt r t = Inr raw"
    and "remove_code_block (str_strip raw) = Inr inner"
    and "json_loads (str_strip inner) = Inl e
         \<or> (\<exists>v. json_loads (str_strip inner) = Inr v \<and> \<not> is_dict v)"
  shows "generate_summary_and_actions invoke json_loads r t =
           Inr (JStr (str_int r @ ''-star review requiring attention''),
                JStr ''Review manually and respond appropriately'')"
proof -
  have "\<exists>x. parse_analysis json_loads raw = Inl x"
    using assms(2,3) by (auto simp: parse_analysis_def dict_get_not_dict)
  then show ?thesis
    using assms(1) by (auto simp: generate_summary_and_actions_def fallback_text)
qed

text \<open>
  The same at rating 2, for an answer in prose, which the decoder rejects, and for an
  answer that decodes to a list.
\<close>
theorem analysis_fallback_on_malformed_witness:
  "generate_summary_and_actions prose_chain small_decoder 2 ''Bad'' =
     Inr (JStr ''2-star review requiring attention'',
          JStr ''Review manually and respond appropriately'')
   \<and> generate_summary_and_actions list_chain small_decoder 2 ''Bad'' =
     Inr (JStr ''2-star review requiring attention'',
          JStr ''Review manually and respond appropriately'')"
proof -
  have raw: "prose_chain AnalysisPrompt 2 ''Bad'' = Inr '' Thank you! ''"
    by (simp add: prose_chain_def)
  have a: "small_decoder (str_strip ''Thank you!'') = Inl JSONDecodeError
           \<or> (\<exists>v. small_decoder (str_strip ''Thank you!'') = Inr v \<and> \<not> is_dict v)"
    by (simp add: prose_strip small_decoder_def)
  have raw': "list_chain AnalysisPrompt 2 ''Bad'' = Inr ''[]''"
    by (simp add: list_chain_def)
  have b: "small_decoder (str_strip ''[]'') = Inl JSONDecodeError
           \<or> (\<exists>v. small_decoder (str_strip ''[]'') = Inr v \<and> \<not> is_dict v)"
    by (simp add: list_strip small_decoder_def)
  show ?thesis
    using analysis_fallback_on_malformed
        [where invoke = prose_chain and json_loads = small_decoder, OF raw prose_inner a]
      analysis_fallback_on_malformed
        [where invoke = list_chain and json_loads = small_decoder, OF raw' list_inner b]
      str_int_2
    by simp
qed

text \<open>
  C4 as stated fails: an answer that decodes to an object with neither field gives the
  two defaults of \<^verbatim>\<open>data.get\<close>, which are not the fallback pair of the rating.
\<close>
theorem analysis_missing_fields_counterexample:
  "generate_summary_and_actions polite_chain small_decoder 2 ''Bad'' =
     Inr (JStr ''Summary not available'', JStr ''Actions not available'')
   \<and> fallback 2 =
     (JStr ''2-star review requiring attention'',
      JStr ''Review manually and respond appropriately'')"
  by (simp add: generate_summary_and_actions_def polite_chain_def parse_fenced_object
      fallback_def str_int_2)

text \<open>
  C4, amended. For every rating, when the answer decodes to an object, the analysis does
  not fail; it returns the value held under each key, and for a missing key the default
  written at the call: \<^verbatim>\<open>Summary not available\<close> for the summary and
  \<^verbatim>\<open>Actions not available\<close> for the actions.
\<close>
theorem analysis_defaults_for_missing_fields:
  assumes "invoke AnalysisPrompt r t = Inr raw"
    and "remove_code_block (str_strip raw) = Inr inner"
    and "json_loads (str_strip inner) = Inr (JDict kvs)"
  shows "generate_summary_and_actions invoke json_loads r t =
           Inr (case map_of kvs ''summary'' of
                  None \<Rightarrow> JStr ''Summary not available'' | Some v \<Rightarrow> v,
                case map_of kvs ''recommended_actions'' of
                  None \<Rightarrow> JStr ''Actions not available'' | Some v \<Rightarrow> v)"
  using assms by (simp add: generate_summary_and_actions_def parse_analysis_def)

text \<open>
  The same at rating 4, for a fenced empty object.
\<close>
theorem analysis_defaults_for_missing_fields_witness:
  "generate_summary_and_actions polite_chain small_decoder 4 ''Fine'' =
     Inr (JStr ''Summary not available'', JStr ''Actions not available'')"
proof -
  have raw: "polite_chain AnalysisPrompt 4 ''Fine'' = Inr fenced_object"
    by (simp add: polite_chain_def)
  have d: "small_decoder (str_strip [CHR 0x0A, CHR ''{'', CHR ''}'', CHR 0x0A]) = Inr (JDict [])"
    by (simp add: fenced_inner_strip small_decoder_def)
  show ?thesis
    using analysis_defaults_for_missing_fields
        [where invoke = polite_chain and json_loads = small_decoder, OF raw fenced_inner d]
    by simp
qed

text \<open>
  C10. The analysis raises only when the model call raises, and with the same exception;
  once the call has returned, every exception of the handling of the response (removing
  the fence, decoding, reading the fields) gives the fallback pair, and otherwise the
  decoded pair is returned.
\<close>
theorem analysis_raises_only_with_model:
  "(generate_summary_and_actions invoke json_loads r t = Inl e
      \<longrightarrow> invoke AnalysisPrompt r t = Inl e)
   \<and> (invoke AnalysisPrompt r t = Inr raw
      \<longrightarrow> (case parse_analysis json_loads raw of
             Inl x \<Rightarrow> generate_summary_and_actions invoke json_loads r t = Inr (fallback r)
           | Inr result \<Rightarrow> generate_summary_and_actions invoke json_loads r t = Inr result))"
  by (auto simp: generate_summary_and_actions_def split: sum.splits)

text \<open>
  The same for a model whose call times out, and for a model that answers in prose.
\<close>
theorem analysis_raises_only_with_model_witness:
  "generate_summary_and_actions broken_chain small_decoder 2 ''Bad'' = Inl (ModelError ''timeout'')
   \<and> broken_chain AnalysisPrompt 2 ''Bad'' = Inl (ModelError ''timeout'')
   \<and> prose_chain AnalysisPrompt 2 ''Bad'' = Inr '' Thank you! ''
   \<and> generate_summary_and_actions prose_chain small_decoder 2 ''Bad'' = Inr (fallback 2)"
proof -
  have g: "generate_summary_and_actions broken_chain small_decoder 2 ''Bad'' =
             Inl (ModelError ''timeout'')"
    by (simp add: generate_summary_and_actions_def broken_chain_def)
  have raw: "prose_chain AnalysisPrompt 2 ''Bad'' = Inr '' Thank you! ''"
    by (simp add: prose_chain_def)
  from analysis_raises_only_with_model
    [of broken_chain small_decoder 2 "''Bad''" "ModelError ''timeout''" "[]"] g
  have 1: "broken_chain AnalysisPrompt 2 ''Bad'' = Inl (ModelError ''timeout'')"
    by blast
  from analysis_raises_only_with_model
    [of prose_chain small_decoder 2 "''Bad''" JSONDecodeError "'' Thank you! ''"] raw parse_prose
  have 2: "generate_summary_and_actions prose_chain small_decoder 2 ''Bad'' = Inr (fallback 2)"
    by simp
  show ?thesis using g 1 raw 2 by simp
qed

section \<open>Properties of the store\<close>

lemma init_data_file_exists: "\<exists>S. data_file (init_data_file s) = Some S"
  by (cases "data_file s") (simp_all add: init_data_file_def to_csv_def)

lemma save_review_existing:
  "data_file s = Some S \<Longrightarrow>
   save_review now r t a su ac s =
     Inr (s\<lparr>data_file := Some (S @ [\<lparr>timestamp = strftime now, rating = r, review = t,
            ai_response = a, ai_summary = su, recommended_actions = ac\<rparr>])\<rparr>)"
  by (simp add: save_review_def read_csv_def to_csv_def)



section \<open>Properties of the submission form\<close>

text \<open>
  C5. For every rating and every review text that is empty after trimming, the submission
  ends with the validation error before any model call, and the store is exactly as it was.
\<close>
theorem empty_review_rejected:
  assumes "str_strip t = []"
  shows "handle_form_submission invoke json_loads now True r t s = (ValidationError, s)"
  using assms by (simp add: handle_form_submission_def)

text \<open>
  The same for the empty text and for three spaces.
\<close>
theorem empty_review_rejected_witness:
  "str_strip [] = [] \<and> str_strip ''   '' = []
   \<and> handle_form_submission polite_chain small_decoder 0 True 3 [] one_review
       = (ValidationError, one_review)
   \<and> handle_form_submission polite_chain small_decoder 0 True 3 ''   '' one_review
       = (ValidationError, one_review)"
proof -
  have a: "str_strip [] = []" by (simp add: str_strip_def)
  have b: "str_strip ''   '' = []" by (simp add: str_strip_def isspace_def)
  show ?thesis
    using a b empty_review_rejected [OF a, of polite_chain small_decoder 0 3 one_review]
      empty_review_rejected [OF b, of polite_chain small_decoder 0 3 one_review]
    by simp
qed

lemma review_text_kept: "str_strip ''Loved it'' = ''Loved it''"
  by code_simp

text \<open>
  C1, amended. For every rating and every review text that is not empty after trimming,
  submitted to an existing store: either both model calls return, the reply shown is the
  trimmed text of the first answer (which may be empty), and exactly one record, with the
  given rating, the untrimmed review, that reply and the analysis pair, is appended; or one
  of the two model calls raises, the failure is reported, and the store is exactly as it was.
\<close>
theorem submission_appends_or_unchanged:
  assumes "str_strip t \<noteq> []" and "data_file s = Some S"
  shows "(\<exists>content summary actions.
            invoke ResponsePrompt r t = Inr content
          \<and> generate_summary_and_actions invoke json_loads r t = Inr (summary, actions)
          \<and> handle_form_submission invoke json_loads now True r t s =
              (Reply (str_strip content),
               s\<lparr>data_file := Some (S @ [\<lparr>timestamp = strftime now, rating = r, review = t,
                    ai_response = str_strip content, ai_summary = summary,
                    recommended_actions = actions\<rparr>])\<rparr>))
       \<or> (\<exists>e. (invoke ResponsePrompt r t = Inl e \<or> invoke AnalysisPrompt r t = Inl e)
             \<and> handle_form_submission invoke json_loads now True r t s = (Failed e, s))"
proof (cases "invoke ResponsePrompt r t")
  case (Inl e)
  with assms(1) show ?thesis
    by (simp add: handle_form_submission_def generate_ai_response_def)
next
  case resp: (Inr content)
  show ?thesis
  proof (cases "generate_summary_and_actions invoke json_loads r t")
    case (Inl e)
    then have "invoke AnalysisPrompt r t = Inl e"
      by (auto simp: generate_summary_and_actions_def split: sum.splits)
    with assms(1) resp Inl show ?thesis
      by (simp add: handle_form_submission_def generate_ai_response_def)
  next
    case (Inr pair)
    obtain summary actions where "pair = (summary, actions)"
      by (cases pair)
    with assms resp Inr show ?thesis
      by (simp add: handle_form_submission_def generate_ai_response_def save_review_existing)
  qed
qed

text \<open>
  The same at rating 5, once with a model that answers and once with one that times out.
\<close>
theorem submission_appends_or_unchanged_witness:
  "str_strip ''Loved it'' \<noteq> [] \<and> data_file one_review = Some [terrible]
   \<and> handle_form_submission polite_chain small_decoder 5000000 True 5 ''Loved it'' one_review =
       (Reply ''Thank you!'',
        \<lparr>data_file = Some [terrible,
           \<lparr>timestamp = 5000000, rating = 5, review = ''Loved it'', ai_response = ''Thank you!'',
            ai_summary = JStr ''Summary not available'',
            recommended_actions = JStr ''Actions not available''\<rparr>],
         load_cache = None\<rparr>)
   \<and> handle_form_submission broken_chain small_decoder 5000000 True 5 ''Loved it'' one_review =
       (Failed (ModelError ''timeout''), one_review)"
proof -
  have a: "str_strip ''Loved it'' \<noteq> []"
    by (simp add: review_text_kept)
  have f: "data_file one_review = Some [terrible]"
    by (simp add: one_review_def)
  have t: "strftime 5000000 = 5000000"
    by (simp add: strftime_def second_def)
  have g: "generate_summary_and_actions polite_chain small_decoder 5 ''Loved it'' =
             Inr (JStr ''Summary not available'', JStr ''Actions not available'')"
    by (simp add: generate_summary_and_actions_def polite_chain_def parse_fenced_object)
  have 1: "handle_form_submission polite_chain small_decoder 5000000 True 5 ''Loved it'' one_review =
       (Reply ''Thank you!'',
        \<lparr>data_file = Some [terrible,
           \<lparr>timestamp = 5000000, rating = 5, review = ''Loved it'', ai_response = ''Thank you!'',
            ai_summary = JStr ''Summary not available'',
            recommended_actions = JStr ''Actions not available''\<rparr>],
         load_cache = None\<rparr>)"
    using submission_appends_or_unchanged
      [OF a f, of polite_chain 5 small_decoder 5000000] g t
    by (simp add: polite_chain_def prose_reply one_review_def)
  have 2: "handle_form_submission broken_chain small_decoder 5000000 True 5 ''Loved it'' one_review =
       (Failed (ModelError ''timeout''), one_review)"
    using submission_appends_or_unchanged
      [OF a f, of broken_chain 5 small_decoder 5000000]
    by (auto simp: broken_chain_def)
  show ?thesis using a f 1 2 by simp
qed

text \<open>
  C1 as stated fails: when the model answers both prompts with blank text, no call raises,
  the reply shown is empty, and a record is appended all the same.
\<close>
theorem submission_blank_reply_counterexample:
  "str_strip ''Loved it'' \<noteq> []
   \<and> blank_chain ResponsePrompt 5 ''Loved it'' = Inr ''  ''
   \<and> blank_chain AnalysisPrompt 5 ''Loved it'' = Inr ''  ''
   \<and> handle_form_submission blank_chain small_decoder 5000000 True 5 ''Loved it'' empty_store =
       (Reply [],
        \<lparr>data_file = Some
           [\<lparr>timestamp = 5000000, rating = 5, review = ''Loved it'', ai_response = [],
             ai_summary = JStr ''5-star review requiring attention'',
             recommended_actions = JStr ''Review manually and respond appropriately''\<rparr>],
         load_cache = None\<rparr>)"
proof -
  have g: "generate_summary_and_actions blank_chain small_decoder 5 ''Loved it'' =
             Inr (JStr ''5-star review requiring attention'',
                  JStr ''Review manually and respond appropriately'')"
    by (simp add: generate_summary_and_actions_def blank_chain_def parse_blank fallback_def
        str_int_5)
  have r: "generate_ai_response blank_chain 5 ''Loved it'' = Inr []"
    by (simp add: generate_ai_response_def blank_chain_def blank_strip)
  show ?thesis
    by (simp add: handle_form_submission_def review_text_kept g r save_review_def read_csv_def
        to_csv_def empty_store_def strftime_def second_def blank_chain_def)
qed

section \<open>Loading after an append or a clear\<close>





text \<open>
  C7. Whatever the store and the cache hold, after the clear operation a load returns the
  empty sequence: the file is overwritten with no row and the cache is cleared.
\<close>
theorem clear_then_load_empty:
  "fst (load_data clock (clear_all_data s)) = []
   \<and> data_file (clear_all_data s) = Some []"
  by (simp add: clear_all_data_def cache_data_clear_def to_csv_def load_data_def read_data_def)

section \<open>The critical export\<close>

lemma mset_sort_values: "mset (sort_values order df) = mset df"
  by (cases order) simp_all

lemma mset_filter_sort_values:
  "mset (filter P (sort_values order df)) = mset (filter P df)"
  by (simp add: mset_sort_values)

lemma filter_thrice:
  "filter P (filter D (filter R xs)) = filter (\<lambda>x. P x \<and> R x \<and> D x) xs"
  by (induction xs) auto

lemma mset_critical_csv:
  "mset (critical_csv now c df) =
     mset (filter (\<lambda>row. rating row \<le> 2 \<and> rating row \<in> set (rating_filter c)
                          \<and> in_date_range now (date_filter c) row) df)"
  unfolding critical_csv_def filtered_df_def
  by (simp only: mset_filter_sort_values filter_thrice)

lemma set_critical_csv:
  "set (critical_csv now c df) =
     {row \<in> set df. rating row \<le> 2 \<and> rating row \<in> set (rating_filter c)
        \<and> in_date_range now (date_filter c) row}"
proof -
  have "set (critical_csv now c df) = set_mset (mset (critical_csv now c df))"
    by simp
  also have "\<dots> = set (filter (\<lambda>row. rating row \<le> 2 \<and> rating row \<in> set (rating_filter c)
                          \<and> in_date_range now (date_filter c) row) df)"
    by (simp only: mset_critical_csv set_mset_mset)
  finally show ?thesis by simp
qed

text \<open>
  C8, amended. The critical export holds exactly the records of the filtered frame with
  rating at most 2: the loaded records with rating at most 2 whose rating is selected in
  the rating filter and that pass the date filter, each as often as it is stored. With the
  five ratings selected and \<^verbatim>\<open>All Time\<close>, every loaded record with rating 1 or 2 is
  exported.
\<close>
theorem critical_export_of_filtered:
  "mset (critical_csv now c df) =
     mset (filter (\<lambda>row. rating row \<le> 2 \<and> rating row \<in> set (rating_filter c)
                          \<and> in_date_range now (date_filter c) row) df)
   \<and> (rating_filter c = [1, 2, 3, 4, 5] \<and> date_filter c = AllTime
        \<and> row \<in> set df \<and> (rating row = 1 \<or> rating row = 2)
      \<longrightarrow> row \<in> set (critical_csv now c df))"
proof (intro conjI impI)
  show "mset (critical_csv now c df) =
     mset (filter (\<lambda>row. rating row \<le> 2 \<and> rating row \<in> set (rating_filter c)
                          \<and> in_date_range now (date_filter c) row) df)"
    by (rule mset_critical_csv)
next
  assume a: "rating_filter c = [1, 2, 3, 4, 5] \<and> date_filter c = AllTime
        \<and> row \<in> set df \<and> (rating row = 1 \<or> rating row = 2)"
  then have "rating row \<le> 2" and "rating row \<in> set (rating_filter c)"
    and "in_date_range now (date_filter c) row" and "row \<in> set df"
    by auto
  then show "row \<in> set (critical_csv now c df)"
    by (simp add: set_critical_csv)
qed

text \<open>
  With the default filters a one-star review is exported and a five-star review is not.
\<close>
theorem critical_export_of_filtered_witness:
  "terrible \<in> set (critical_csv 0 all_reviews [terrible, loved])
   \<and> mset (critical_csv 0 all_reviews [terrible, loved]) = mset [terrible]"
proof -
  have r: "rating terrible = 1" "rating loved = 5"
    by (simp_all add: terrible_def loved_def)
  have c: "rating_filter all_reviews = [1, 2, 3, 4, 5]" "date_filter all_reviews = AllTime"
    by (simp_all add: all_reviews_def)
  from critical_export_of_filtered [of 0 all_reviews "[terrible, loved]" terrible]
  show ?thesis using r c by simp
qed

text \<open>
  C8 as stated fails: with only the ratings 3, 4 and 5 selected, a stored one-star review is
  not in the critical export.
\<close>
theorem critical_export_hidden_counterexample:
  "rating terrible = 1 \<and> critical_csv 0 good_reviews [terrible] = []"
  by (simp add: critical_csv_def filtered_df_def good_reviews_def terrible_def)

section \<open>The clear-all control\<close>

lemma init_data_file_rows: "read_data (init_data_file s) = read_data s"
  by (simp add: init_data_file_def read_data_def to_csv_def split: option.splits)

lemma load_data_keeps_file: "data_file (snd (load_data now s)) = data_file s"
  by (simp add: load_data_def split: option.splits prod.splits)

lemma admin_script_keeps_file:
  "data_file (snd (admin_script clicked c now s)) = data_file (init_data_file s)"
proof (cases "load_data now (init_data_file s)")
  case (Pair df s1)
  then have "data_file s1 = data_file (init_data_file s)"
    using load_data_keeps_file [of now "init_data_file s"] by simp
  with Pair show ?thesis
    by (auto simp: admin_script_def button_def cache_data_clear_def Let_def)
qed

lemma admin_script_keeps_rows: "read_data (snd (admin_script clicked c now s)) = read_data s"
  using admin_script_keeps_file [of clicked c now s] init_data_file_rows [of s]
  by (simp add: read_data_def)

lemma admin_dashboard_keeps_rows: "read_data (snd (admin_dashboard clicked c now s)) = read_data s"
proof (cases "admin_script clicked c now s")
  case (Pair p s')
  then have "read_data s' = read_data s"
    using admin_script_keeps_rows [of clicked c now s] by simp
  with Pair show ?thesis
    by (cases p) (simp_all add: admin_dashboard_def admin_script_keeps_rows)
qed

lemma admin_session_keeps_rows: "read_data (admin_session actions s) = read_data s"
  by (induction actions s rule: admin_session.induct) (simp_all add: admin_dashboard_keeps_rows)

text \<open>
  C9. The clear is written under the test of the second button inside the test of the
  first, so it runs only in a script run in which both buttons return \<^verbatim>\<open>True\<close>; no run
  is started by two widgets. After a click on \<^verbatim>\<open>Clear All Data\<close> and then a click on
  \<^verbatim>\<open>Confirm Delete\<close> the store still holds its review.
\<close>
theorem confirmed_clear_keeps_reviews:
  "read_data
     (admin_session
        [(Some ClearAllData, all_reviews, 1000000), (Some ConfirmDelete, all_reviews, 2000000)]
        one_review) = [terrible]"
proof -
  have "read_data one_review = [terrible]"
    by (simp add: read_data_def one_review_def)
  then show ?thesis
    by (simp only: admin_session_keeps_rows)
qed

end
